theory Spec2Isabelle
  imports Main "HOL-Library.Multiset"
begin

section \<open>JavaScript values used by the handlers\<close>

text \<open>
  An optional string field of a JavaScript object is a \<open>string option\<close>; \<open>None\<close> stands for
  \<open>undefined\<close> and \<open>null\<close>. A string is truthy when it is present and not empty.
\<close>

definition truthy :: "string option \<Rightarrow> bool" where
  "truthy v = (case v of None \<Rightarrow> False | Some x \<Rightarrow> x \<noteq> [])"

text \<open>\<open>v || d\<close> for an optional string \<open>v\<close> and a string default \<open>d\<close>.\<close>

definition or_else :: "string option \<Rightarrow> string \<Rightarrow> string" where
  "or_else v d = (case v of None \<Rightarrow> d | Some x \<Rightarrow> if x = [] then d else x)"

text \<open>\<open>v || null\<close>: a falsy value becomes \<open>null\<close>.\<close>

definition or_null :: "string option \<Rightarrow> string option" where
  "or_null v = (if truthy v then v else None)"

text \<open>\<open>a || b\<close> for two optional strings.\<close>

definition or_opt :: "string option \<Rightarrow> string option \<Rightarrow> string option" where
  "or_opt a b = (if truthy a then a else b)"

text \<open>How a template literal prints an optional string.\<close>

definition show_opt :: "string option \<Rightarrow> string" where
  "show_opt v = (case v of None \<Rightarrow> ''undefined'' | Some x \<Rightarrow> x)"

text \<open>\<open>String.prototype.toLowerCase\<close> on the ASCII letters.\<close>

definition lower_char :: "char \<Rightarrow> char" where
  "lower_char c =
     (case map_of (zip ''ABCDEFGHIJKLMNOPQRSTUVWXYZ'' ''abcdefghijklmnopqrstuvwxyz'') c of
        Some l \<Rightarrow> l
      | None \<Rightarrow> c)"

definition toLowerCase :: "string \<Rightarrow> string" where
  "toLowerCase s = map lower_char s"

text \<open>\<open>String.prototype.includes\<close>.\<close>

fun str_includes :: "string \<Rightarrow> string \<Rightarrow> bool" where
  "str_includes [] p = (p = [])"
| "str_includes (c # cs) p = (take (length p) (c # cs) = p \<or> str_includes cs p)"

text \<open>
  The result of an awaited promise: it resolves with a value or rejects. A rejected HTTP
  request to the voice provider carries \<open>error.response?.data?.message\<close>.
\<close>

datatype 'a outcome = Resolved 'a | Rejected "string option"

section \<open>Call records, users, responses\<close>

text \<open>
  The call object of the in-memory registry. Times are milliseconds since the epoch
  (the value of the \<open>Date\<close>). \<open>monitor_controlUrl\<close> is \<open>call.monitor?.controlUrl\<close>.
  Every handler that builds a call object stores a \<open>Date\<close> in \<open>startTime\<close>, so the field
  is always present. Fields the handlers only copy from the provider and never read
  (\<open>type\<close>, \<open>orgId\<close>, \<open>phoneNumberId\<close>, \<open>createdAt\<close>, \<open>updatedAt\<close>) are left out.
\<close>

record call =
  id :: string
  status :: "string option"
  direction :: "string option"
  startTime :: int
  duration :: int
  endTime :: "int option"
  user_email :: string
  from_number :: "string option"
  customer_number :: "string option"
  assistantId :: "string option"
  agentId :: "string option"
  call_notes :: "string option"
  monitor_controlUrl :: "string option"

text \<open>\<open>req.user\<close> of an authenticated request.\<close>

record user =
  email :: string
  role :: "string option"

text \<open>\<open>(req.user.role || 'user').toLowerCase() === 'admin'\<close>\<close>

definition isAdminRole :: "user \<Rightarrow> bool" where
  "isAdminRole u = (toLowerCase (or_else (role u) ''user'') = ''admin'')"

datatype body =
    ErrorBody string
  | MessageBody string call
  | CallBody call
  | CallsBody "call list"
  | Received
  | TextBody string
  | NoBody

datatype response = Response (status_code: nat) (payload: body)

text \<open>What \<open>io.emit\<close> sends to every connected socket.\<close>

datatype emit = CallUpdate call | ActiveCalls nat

section \<open>The call log table (db/callLogs.js)\<close>

text \<open>
  The \<open>callData\<close> object handed to \<open>saveCallLog\<close>, and a row of the \<open>call_logs\<close> table
  (the columns \<open>id\<close>, \<open>created_at\<close> and \<open>updated_at\<close>, which the database fills, are left out).
\<close>

record call_data =
  call_id :: string
  log_user_email :: string
  log_direction :: "string option"
  phone_number :: string
  log_status :: "string option"
  start_time :: int
  log_duration :: int
  agent_id :: "string option"
  log_notes :: "string option"

text \<open>
  The SQL statements the code sends through \<open>pool.execute\<close>. A function
  \<open>stmt \<Rightarrow> bool\<close> says which of them the database rejects during one request.
\<close>

datatype stmt =
    UpdateCallLog | InsertCallLog
  | SelectSubByEvent | SelectSubByEmail | UpdateSub | InsertSub
  | SelectUserByPhone

definition db_up :: "stmt \<Rightarrow> bool" where
  "db_up q = False"

text \<open>
  \<open>start_time.toISOString().slice(0, 19).replace('T', ' ')\<close> drops the milliseconds.
\<close>

definition startTimeForDb :: "int \<Rightarrow> int" where
  "startTimeForDb t = (t div 1000) * 1000"

definition call_log_row :: "call_data \<Rightarrow> call_data" where
  "call_log_row d =
     d\<lparr>start_time := startTimeForDb (start_time d),
       agent_id := or_null (agent_id d),
       log_notes := or_null (log_notes d)\<rparr>"

text \<open>\<open>updateResult.affectedRows\<close> of the \<open>UPDATE ... WHERE call_id = ?\<close>.\<close>

definition affectedRows :: "string \<Rightarrow> call_data list \<Rightarrow> nat" where
  "affectedRows k tbl = length (filter (\<lambda>r. call_id r = k) tbl)"

text \<open>
  \<open>saveCallLog\<close>: no call id, nothing is saved; otherwise UPDATE by \<open>call_id\<close> and, when
  no row was affected, INSERT. A database error is caught and logged inside the function,
  so it never rejects. The CRM synchronisation that follows is fire-and-forget and touches
  neither the table nor the result.
\<close>

definition saveCallLog :: "(stmt \<Rightarrow> bool) \<Rightarrow> call_data \<Rightarrow> call_data list \<Rightarrow> call_data list" where
  "saveCallLog fails d tbl =
     (if call_id d = [] then tbl
      else if fails UpdateCallLog then tbl
      else if affectedRows (call_id d) tbl = 0 then
        (if fails InsertCallLog then tbl else tbl @ [call_log_row d])
      else map (\<lambda>r. if call_id r = call_id d then call_log_row d else r) tbl)"

section \<open>The subscriptions table (db/subscriptions.js)\<close>

text \<open>
  The \<open>subscriptionData\<close> object handed to \<open>saveSubscriptionToDb\<close>, and a row of the
  \<open>subscriptions\<close> table, under the column names. The price is kept in cents
  (\<open>amount_total\<close>), where the code stores \<open>amount_total / 100\<close>.
\<close>

record subscription =
  sub_email :: "string option"
  subscription_id :: "string option"
  plan :: string
  sub_status :: string
  price_cents :: int
  expiry_date :: "string option"
  stripe_event_id :: "string option"

datatype db_error = DbError

text \<open>A SQL comparison \<open>column = ?\<close> is never true for \<open>NULL\<close>.\<close>

definition sql_eq :: "string option \<Rightarrow> string option \<Rightarrow> bool" where
  "sql_eq a b = (a \<noteq> None \<and> a = b)"

text \<open>
  \<open>saveSubscriptionToDb\<close>: an event id already stored in the table ends the function
  before any write. That first SELECT is outside the \<open>try\<close>, so its failure rejects the
  promise; the later statements are inside it, and their failure is caught and logged.
\<close>

definition save_by_email :: "(stmt \<Rightarrow> bool) \<Rightarrow> subscription \<Rightarrow> subscription list \<Rightarrow> subscription list" where
  "save_by_email fails d tbl =
     (if fails SelectSubByEmail then tbl
      else if filter (\<lambda>r. sql_eq (sub_email r) (sub_email d)) tbl \<noteq> [] then
        (if fails UpdateSub then tbl
         else map (\<lambda>r. if sql_eq (sub_email r) (sub_email d)
                       then d\<lparr>sub_email := sub_email r, expiry_date := or_null (expiry_date d)\<rparr>
                       else r) tbl)
      else
        (if fails InsertSub then tbl
         else tbl @ [d\<lparr>expiry_date := or_null (expiry_date d)\<rparr>]))"

definition saveSubscriptionToDb ::
  "(stmt \<Rightarrow> bool) \<Rightarrow> subscription \<Rightarrow> subscription list \<Rightarrow> db_error + subscription list" where
  "saveSubscriptionToDb fails d tbl =
     (if truthy (stripe_event_id d) then
        (if fails SelectSubByEvent then Inl DbError
         else if filter (\<lambda>r. sql_eq (stripe_event_id r) (stripe_event_id d)) tbl \<noteq> [] then Inr tbl
         else Inr (save_by_email fails d tbl))
      else Inr (save_by_email fails d tbl))"

section \<open>Process state and the broadcaster (server.js)\<close>

text \<open>A row of the \<open>users\<close> table, as far as the handlers read it.\<close>

record user_row =
  phone :: "string option"
  row_email :: string

text \<open>
  What every revision of the server shares: the cached count \<open>activeCalls\<close>, the events
  emitted on the socket so far (oldest first), the three tables, and the arguments of
  the calls of \<open>saveCallLog\<close> made so far (oldest first).
\<close>

record process =
  activeCalls :: nat
  emitted :: "emit list"
  users :: "user_row list"
  subscriptions :: "subscription list"
  call_logs :: "call_data list"
  saveCallLog_calls :: "call_data list"

text \<open>The current revision keeps the calls in a \<open>Map\<close> from call id to call object,
  which iterates in insertion order.\<close>

record server = process +
  callLogsMap :: "(string \<times> call) list"

fun map_get :: "string \<Rightarrow> (string \<times> call) list \<Rightarrow> call option" where
  "map_get k [] = None"
| "map_get k ((k', v) # m) = (if k' = k then Some v else map_get k m)"

fun map_set :: "string \<Rightarrow> call \<Rightarrow> (string \<times> call) list \<Rightarrow> (string \<times> call) list" where
  "map_set k v [] = [(k, v)]"
| "map_set k v ((k', v') # m) = (if k' = k then (k, v) # m else (k', v') # map_set k v m)"

definition map_values :: "(string \<times> call) list \<Rightarrow> call list" where
  "map_values m = map snd m"

definition ongoing :: "call list \<Rightarrow> nat" where
  "ongoing cs = length (filter (\<lambda>c. status c = Some ''ongoing'') cs)"

definition notifyClients :: "call \<Rightarrow> ('a process_scheme) \<Rightarrow> ('a process_scheme)" where
  "notifyClients c s = s\<lparr>emitted := emitted s @ [CallUpdate c]\<rparr>"

definition updateActiveCalls :: "server \<Rightarrow> server" where
  "updateActiveCalls s =
     (let n = ongoing (map_values (callLogsMap s))
      in s\<lparr>activeCalls := n, emitted := emitted s @ [ActiveCalls n]\<rparr>)"

text \<open>The call of \<open>saveCallLog\<close> as an effect on the process.\<close>

definition do_saveCallLog :: "(stmt \<Rightarrow> bool) \<Rightarrow> call_data \<Rightarrow> ('a process_scheme) \<Rightarrow> ('a process_scheme)" where
  "do_saveCallLog fails d s =
     s\<lparr>call_logs := saveCallLog fails d (call_logs s),
       saveCallLog_calls := saveCallLog_calls s @ [d]\<rparr>"

section \<open>The call routes of server.js\<close>

text \<open>
  \<open>GET /api/calls\<close>. \<open>Array.prototype.sort\<close> is stable, and the comparator orders by
  \<open>startTime\<close>, latest first.
\<close>

definition sort_desc :: "call list \<Rightarrow> call list" where
  "sort_desc cs = sort_key (\<lambda>c. - startTime c) cs"

definition get_calls :: "user \<Rightarrow> server \<Rightarrow> response" where
  "get_calls u s =
     (let allLogs = sort_desc (map_values (callLogsMap s))
      in if isAdminRole u then Response 200 (CallsBody allLogs)
         else Response 200 (CallsBody (filter (\<lambda>c. user_email c = email u) allLogs)))"

text \<open>The reply of the voice provider to the place-call command (\<open>response.data\<close>).\<close>

record vapi_call =
  v_id :: string
  v_status :: "string option"
  v_customer_number :: "string option"
  v_createdAt :: "int option"
  v_assistantId :: "string option"
  v_monitor_controlUrl :: "string option"

definition newCall_of :: "user \<Rightarrow> int \<Rightarrow> vapi_call \<Rightarrow> call" where
  "newCall_of u now r =
     \<lparr>id = v_id r,
      status = Some (or_else (v_status r) ''queued''),
      direction = Some ''outbound'',
      startTime = (case v_createdAt r of Some t \<Rightarrow> t | None \<Rightarrow> now),
      duration = 0,
      endTime = None,
      user_email = email u,
      from_number = v_customer_number r,
      customer_number = v_customer_number r,
      assistantId = v_assistantId r,
      agentId = None,
      call_notes = None,
      monitor_controlUrl = v_monitor_controlUrl r\<rparr>"

text \<open>\<open>POST /api/calls/start\<close>\<close>

definition start_call ::
  "user \<Rightarrow> string option \<Rightarrow> int \<Rightarrow> vapi_call outcome \<Rightarrow> server \<Rightarrow> response \<times> server" where
  "start_call u phoneNumber now post s =
     (if \<not> truthy phoneNumber then (Response 400 (ErrorBody ''phoneNumber is required''), s)
      else case post of
        Rejected m \<Rightarrow> (Response 500 (ErrorBody (or_else m ''Failed to start call'')), s)
      | Resolved r \<Rightarrow>
          (let newCall = newCall_of u now r
           in (Response 200 (CallBody newCall),
               notifyClients newCall (s\<lparr>callLogsMap := map_set (id newCall) newCall (callLogsMap s)\<rparr>))))"

text \<open>\<open>POST /api/calls/answer/:callId\<close>. The user is only logged.\<close>

definition answer_call ::
  "user \<Rightarrow> string \<Rightarrow> unit outcome \<Rightarrow> server \<Rightarrow> response \<times> server" where
  "answer_call u callId post s =
     (case map_get callId (callLogsMap s) of
        None \<Rightarrow> (Response 404 (ErrorBody ''Call not found in active memory''), s)
      | Some c \<Rightarrow>
          if direction c \<noteq> Some ''inbound'' then (Response 400 (ErrorBody ''Not an inbound call''), s)
          else if status c \<noteq> Some ''ringing'' then
            (Response 400 (ErrorBody (''Call status is '' @ show_opt (status c) @ '', cannot answer.'')), s)
          else if \<not> truthy (monitor_controlUrl c) then
            (Response 404 (ErrorBody ''No control URL available for this call yet.''), s)
          else
            (case post of
               Rejected m \<Rightarrow> (Response 500 (ErrorBody (or_else m ''Failed to answer call'')), s)
             | Resolved _ \<Rightarrow>
                 (let c' = c\<lparr>status := Some ''answering''\<rparr>
                  in (Response 200 (MessageBody ''Answer request sent'' c'),
                      notifyClients c' (s\<lparr>callLogsMap := map_set callId c' (callLogsMap s)\<rparr>)))))"

text \<open>\<open>POST /api/calls/reject/:callId\<close>. The user is only logged.\<close>

definition reject_call ::
  "user \<Rightarrow> string \<Rightarrow> unit outcome \<Rightarrow> server \<Rightarrow> response \<times> server" where
  "reject_call u callId post s =
     (case map_get callId (callLogsMap s) of
        None \<Rightarrow> (Response 404 (ErrorBody ''Call not found in active memory''), s)
      | Some c \<Rightarrow>
          if direction c \<noteq> Some ''inbound'' then (Response 400 (ErrorBody ''Not an inbound call''), s)
          else if status c \<noteq> Some ''ringing'' then
            (Response 400 (ErrorBody (''Call status is '' @ show_opt (status c) @ '', cannot reject.'')), s)
          else if \<not> truthy (monitor_controlUrl c) then
            (Response 404 (ErrorBody ''No control URL available for this call yet.''), s)
          else
            (case post of
               Rejected m \<Rightarrow> (Response 500 (ErrorBody (or_else m ''Failed to reject call'')), s)
             | Resolved _ \<Rightarrow>
                 (let c' = c\<lparr>status := Some ''rejecting''\<rparr>
                  in (Response 200 (MessageBody ''Call reject request sent'' c'),
                      notifyClients c' (s\<lparr>callLogsMap := map_set callId c' (callLogsMap s)\<rparr>)))))"

text \<open>
  The local fallback of \<open>POST /api/calls/end/:callId\<close>: the call is marked completed, the
  duration is the whole seconds from \<open>startTime\<close> to now, and the record is saved.
  \<open>saveCallLog\<close> never rejects, so the handler's \<open>catch (dbError)\<close> is never entered.
\<close>

definition fallback_callData :: "user \<Rightarrow> call \<Rightarrow> call_data" where
  "fallback_callData u c =
     \<lparr>call_id = id c,
      log_user_email = (if user_email c = [] then email u else user_email c),
      log_direction = direction c,
      phone_number = or_else (or_opt (from_number c) (customer_number c)) ''N/A'',
      log_status = status c,
      start_time = startTime c,
      log_duration = duration c,
      agent_id = or_null (or_opt (agentId c) (assistantId c)),
      log_notes = or_null (call_notes c)\<rparr>"

definition ended_locally :: "call \<Rightarrow> int \<Rightarrow> call" where
  "ended_locally c now =
     c\<lparr>status := Some ''completed'',
       duration := (now - startTime c) div 1000,
       endTime := Some now\<rparr>"

definition end_locally :: "user \<Rightarrow> string \<Rightarrow> int \<Rightarrow> (stmt \<Rightarrow> bool) \<Rightarrow> call \<Rightarrow> server \<Rightarrow> response \<times> server" where
  "end_locally u callId now fails c s =
     (let c' = ended_locally c now;
          s1 = s\<lparr>callLogsMap := map_set callId c' (callLogsMap s)\<rparr>;
          s2 = notifyClients c' (updateActiveCalls s1);
          s3 = do_saveCallLog fails (fallback_callData u c') s2
      in (Response 200 (MessageBody ''Call ended locally (Vapi control failed or unavailable)'' c'), s3))"

text \<open>\<open>POST /api/calls/end/:callId\<close>\<close>

definition end_call ::
  "user \<Rightarrow> string \<Rightarrow> int \<Rightarrow> unit outcome \<Rightarrow> (stmt \<Rightarrow> bool) \<Rightarrow> server \<Rightarrow> response \<times> server" where
  "end_call u callId now post fails s =
     (case map_get callId (callLogsMap s) of
        None \<Rightarrow> (Response 404 (ErrorBody ''Call not found in active memory''), s)
      | Some c \<Rightarrow>
          if user_email c \<noteq> email u \<and> \<not> isAdminRole u then
            (Response 403 (ErrorBody ''Forbidden: You cannot end this call.''), s)
          else if status c = Some ''completed'' \<or> status c = Some ''ended'' then
            (Response 200 (MessageBody ''Call already ended'' c), s)
          else if truthy (monitor_controlUrl c) then
            (case post of
               Resolved _ \<Rightarrow>
                 (let c' = c\<lparr>status := Some ''ending''\<rparr>
                  in (Response 200 (MessageBody ''End call request sent to Vapi'' c'),
                      notifyClients c' (s\<lparr>callLogsMap := map_set callId c' (callLogsMap s)\<rparr>)))
             | Rejected m \<Rightarrow> end_locally u callId now fails c s)
          else end_locally u callId now fails c s)"

section \<open>The earlier revision of server.js: the calls in an array\<close>

text \<open>
  The earlier revisions keep the calls in the array \<open>callLogs\<close>, exported as
  \<open>global.callLogs\<close> together with \<open>global.updateActiveCalls\<close> and
  \<open>global.notifyClients\<close>; the webhook handlers work on it.
\<close>

record legacy_server = process +
  callLogs :: "call list"

definition legacy_updateActiveCalls :: "legacy_server \<Rightarrow> legacy_server" where
  "legacy_updateActiveCalls s =
     (let n = ongoing (callLogs s)
      in s\<lparr>activeCalls := n, emitted := emitted s @ [ActiveCalls n]\<rparr>)"

text \<open>\<open>Array.prototype.findIndex\<close>; \<open>None\<close> is the result \<open>-1\<close>.\<close>

fun findIndex :: "('a \<Rightarrow> bool) \<Rightarrow> 'a list \<Rightarrow> nat option" where
  "findIndex P [] = None"
| "findIndex P (x # xs) = (if P x then Some 0 else map_option Suc (findIndex P xs))"

text \<open>
  \<open>index > -1 ? callLogs[index] = newCall : callLogs.unshift(newCall)\<close>: the new object
  takes the place of the one stored under its id.
\<close>

definition store_call :: "call \<Rightarrow> call list \<Rightarrow> call list" where
  "store_call newCall cs =
     (case findIndex (\<lambda>c. id c = id newCall) cs of
        Some i \<Rightarrow> cs[i := newCall]
      | None \<Rightarrow> newCall # cs)"

text \<open>\<open>callLogs.find(c => c.id === callId)\<close>\<close>

definition legacy_get :: "string \<Rightarrow> legacy_server \<Rightarrow> call option" where
  "legacy_get callId s = find (\<lambda>c. id c = callId) (callLogs s)"

text \<open>The call object of a voice-provider event (\<open>event.call\<close>, \<open>callEvent\<close>);
  \<open>e_customer_number\<close> is \<open>customer && customer.number\<close>.\<close>

record call_event =
  e_id :: string
  e_direction :: "string option"
  e_customer_number :: "string option"
  e_createdAt :: "int option"
  e_status :: "string option"
  e_duration :: "int option"
  e_monitor_controlUrl :: "string option"

text \<open>\<open>SELECT email FROM users WHERE phone = ?\<close>, then \<open>users[0].email\<close> or \<open>"N/A"\<close>.\<close>

definition email_by_phone :: "(stmt \<Rightarrow> bool) \<Rightarrow> string \<Rightarrow> user_row list \<Rightarrow> string" where
  "email_by_phone fails number us =
     (if fails SelectUserByPhone then ''N/A''
      else case filter (\<lambda>r. phone r = Some number) us of
        [] \<Rightarrow> ''N/A''
      | r # _ \<Rightarrow> row_email r)"

definition webhook_newCall :: "string \<Rightarrow> string \<Rightarrow> int \<Rightarrow> string option \<Rightarrow> call_event \<Rightarrow> call" where
  "webhook_newCall userEmail from_no now mon e =
     \<lparr>id = e_id e,
      status = e_status e,
      direction = e_direction e,
      startTime = (case e_createdAt e of Some t \<Rightarrow> t | None \<Rightarrow> now),
      duration = (case e_duration e of Some d \<Rightarrow> d | None \<Rightarrow> 0),
      endTime = None,
      user_email = userEmail,
      from_number = Some from_no,
      customer_number = None,
      assistantId = None,
      agentId = None,
      call_notes = None,
      monitor_controlUrl = mon\<rparr>"

text \<open>
  \<open>app.post("/webhook")\<close> of the earlier revision. Whether the caller's number maps to a
  user, the lookup fails, or the event has no number, the same steps follow: build the call
  object (with the event's monitor), store it, recount, notify, answer 200.
\<close>

definition legacy_webhook ::
  "(stmt \<Rightarrow> bool) \<Rightarrow> int \<Rightarrow> call_event option \<Rightarrow> legacy_server \<Rightarrow> response \<times> legacy_server" where
  "legacy_webhook fails now ev s =
     (case ev of
        None \<Rightarrow> (Response 500 (ErrorBody ''Internal Server Error''), s)
      | Some e \<Rightarrow>
          (let newCall =
                 (case e_customer_number e of
                    None \<Rightarrow> webhook_newCall ''N/A'' ''N/A'' now (e_monitor_controlUrl e) e
                  | Some number \<Rightarrow>
                      if number = [] then webhook_newCall ''N/A'' ''N/A'' now (e_monitor_controlUrl e) e
                      else webhook_newCall (email_by_phone fails number (users s)) number now
                             (e_monitor_controlUrl e) e)
           in (Response 200 NoBody,
               notifyClients newCall
                 (legacy_updateActiveCalls (s\<lparr>callLogs := store_call newCall (callLogs s)\<rparr>)))))"

section \<open>The inbound webhook (routes/inboundWebhook.js)\<close>

text \<open>
  The handler reaches the registry through \<open>global.callLogs\<close>, \<open>global.updateActiveCalls\<close>
  and \<open>global.notifyClients\<close>. The array revisions of server.js assign the three; the
  current revision assigns only \<open>global.getCallLogById\<close> and \<open>global.getAllCallLogs\<close>.
  The handler is therefore modelled twice: \<open>inbound_webhook\<close> on the array revisions, and
  \<open>inbound_webhook_current\<close> on the current one.
\<close>

text \<open>The JSON body: \<open>req.body.data && req.body.data.object\<close>, and \<open>req.body.call\<close>.\<close>

record inbound_body =
  data_object :: "call_event option"
  body_call :: "call_event option"

definition extract_callEvent :: "inbound_body \<Rightarrow> call_event option" where
  "extract_callEvent b = (case data_object b of Some e \<Rightarrow> Some e | None \<Rightarrow> body_call b)"

definition inbound_callData :: "call \<Rightarrow> call_data" where
  "inbound_callData c =
     \<lparr>call_id = id c,
      log_user_email = user_email c,
      log_direction = direction c,
      phone_number = or_else (from_number c) ''N/A'',
      log_status = status c,
      start_time = startTime c,
      log_duration = duration c,
      agent_id = None,
      log_notes = None\<rparr>"

text \<open>
  \<open>router.post('/')\<close> on the array revisions: the new call object has no \<open>monitor\<close>
  field and the owner \<open>"N/A"\<close>; it is stored, counted, notified and saved, and the answer
  is 200.
\<close>

definition inbound_webhook ::
  "(stmt \<Rightarrow> bool) \<Rightarrow> int \<Rightarrow> inbound_body \<Rightarrow> legacy_server \<Rightarrow> response \<times> legacy_server" where
  "inbound_webhook fails now b s =
     (case extract_callEvent b of
        None \<Rightarrow> (Response 400 (ErrorBody ''No call data provided''), s)
      | Some e \<Rightarrow>
          (let newCall = webhook_newCall ''N/A'' (or_else (e_customer_number e) ''N/A'') now None e;
               s1 = s\<lparr>callLogs := store_call newCall (callLogs s)\<rparr>;
               s2 = notifyClients newCall (legacy_updateActiveCalls s1);
               s3 = do_saveCallLog fails (inbound_callData newCall) s2
           in (Response 200 Received, s3)))"

text \<open>
  \<open>router.post('/')\<close> on the current revision. A body without call data is answered 400
  as before. Otherwise the call object is built and \<open>global.callLogs.findIndex\<close> throws a
  \<open>TypeError\<close>, because \<open>global.callLogs\<close> is undefined. The line is outside every
  \<open>try\<close> of the async handler, so its promise rejects: nothing is stored, published or
  saved, and no response is sent (\<open>None\<close>).
\<close>

definition inbound_webhook_current :: "inbound_body \<Rightarrow> server \<Rightarrow> response option \<times> server" where
  "inbound_webhook_current b s =
     (case extract_callEvent b of
        None \<Rightarrow> (Some (Response 400 (ErrorBody ''No call data provided'')), s)
      | Some e \<Rightarrow> (None, s))"

section \<open>The payment webhook (routes/webhook.js)\<close>

text \<open>
  \<open>event.data.object\<close>: a checkout session or a call, read field by field.
\<close>

record event_object =
  customer_email :: "string option"
  subscription_ref :: "string option"
  metadata_plan :: "string option"
  amount_total :: "int option"
  o_id :: string
  o_customer_number :: "string option"
  o_type :: "string option"
  o_status :: "string option"
  o_createdAt :: "int option"
  o_duration :: "int option"
  o_agentId :: "string option"

text \<open>The verified event; \<open>ev_call\<close> says whether \<open>event.call\<close> is present.\<close>

record stripe_event =
  ev_id :: string
  ev_type :: "string option"
  ev_call :: bool
  ev_data_object :: "event_object option"

text \<open>\<open>if (!event.type && event.call) event.type = 'call.inbound.completed'\<close>\<close>

definition event_type :: "stripe_event \<Rightarrow> string option" where
  "event_type ev = (if \<not> truthy (ev_type ev) \<and> ev_call ev then Some ''call.inbound.completed'' else ev_type ev)"

definition subscriptionData :: "stripe_event \<Rightarrow> string \<Rightarrow> event_object \<Rightarrow> subscription" where
  "subscriptionData ev expiryDateString session =
     \<lparr>sub_email = customer_email session,
      subscription_id = subscription_ref session,
      plan = or_else (metadata_plan session) ''unknown'',
      sub_status = ''active'',
      price_cents = (case amount_total session of Some a \<Rightarrow> a | None \<Rightarrow> 0),
      expiry_date = Some expiryDateString,
      stripe_event_id = Some (ev_id ev)\<rparr>"

text \<open>
  The two processing steps return \<open>None\<close> where the handler throws a \<open>TypeError\<close> outside
  every \<open>try\<close> (no \<open>event.data\<close>, or a call object without \<open>type\<close>): the promise of the
  handler rejects and no response is sent.
\<close>

definition process_checkout ::
  "(stmt \<Rightarrow> bool) \<Rightarrow> string \<Rightarrow> stripe_event \<Rightarrow> ('a process_scheme) \<Rightarrow> ('a process_scheme) option" where
  "process_checkout fails expiryDateString ev s =
     (if event_type ev = Some ''checkout.session.completed'' then
        (case ev_data_object ev of
           None \<Rightarrow> None
         | Some session \<Rightarrow>
             (case saveSubscriptionToDb fails (subscriptionData ev expiryDateString session) (subscriptions s) of
                Inl err \<Rightarrow> Some s
              | Inr tbl \<Rightarrow> Some (s\<lparr>subscriptions := tbl\<rparr>)))
      else Some s)"

definition webhook_callData :: "string \<Rightarrow> string \<Rightarrow> int \<Rightarrow> event_object \<Rightarrow> call_data" where
  "webhook_callData userEmail ty now callEvent =
     \<lparr>call_id = o_id callEvent,
      log_user_email = userEmail,
      log_direction = Some (if str_includes ty ''inbound'' then ''inbound'' else ''outbound''),
      phone_number = or_else (o_customer_number callEvent) ''N/A'',
      log_status = o_status callEvent,
      start_time = (case o_createdAt callEvent of Some t \<Rightarrow> t | None \<Rightarrow> now),
      log_duration = (case o_duration callEvent of Some d \<Rightarrow> d | None \<Rightarrow> 0),
      agent_id = or_null (o_agentId callEvent),
      log_notes = None\<rparr>"

definition process_call_event ::
  "(stmt \<Rightarrow> bool) \<Rightarrow> int \<Rightarrow> stripe_event \<Rightarrow> ('a process_scheme) \<Rightarrow> ('a process_scheme) option" where
  "process_call_event fails now ev s =
     (if event_type ev = Some ''call.inbound.completed'' then
        (case ev_data_object ev of
           None \<Rightarrow> None
         | Some callEvent \<Rightarrow>
             (let userEmail =
                    (case o_customer_number callEvent of
                       None \<Rightarrow> ''N/A''
                     | Some number \<Rightarrow>
                         if number = [] then ''N/A'' else email_by_phone fails number (users s))
              in case o_type callEvent of
                   None \<Rightarrow> None
                 | Some ty \<Rightarrow> Some (do_saveCallLog fails (webhook_callData userEmail ty now callEvent) s)))
      else Some s)"

text \<open>
  \<open>router.post('/')\<close>: the configuration and signature checks, the verification
  (\<open>stripe.webhooks.constructEvent\<close>, whose result is an input here: the error message or
  the event), the two processing steps, and the acknowledgement.
\<close>

definition stripe_webhook ::
  "string option \<Rightarrow> string option \<Rightarrow> string + stripe_event \<Rightarrow> (stmt \<Rightarrow> bool) \<Rightarrow> string \<Rightarrow> int \<Rightarrow>
     ('a process_scheme) \<Rightarrow> response option \<times> ('a process_scheme)" where
  "stripe_webhook endpointSecret sig constructEvent fails expiryDateString now s =
     (if \<not> truthy endpointSecret then (Some (Response 500 (TextBody ''Webhook configuration error.'')), s)
      else if \<not> truthy sig then (Some (Response 400 (TextBody ''Missing Stripe signature.'')), s)
      else case constructEvent of
        Inl msg \<Rightarrow> (Some (Response 400 (TextBody (''Webhook Error: '' @ msg))), s)
      | Inr ev \<Rightarrow>
          (case process_checkout fails expiryDateString ev s of
             None \<Rightarrow> (None, s)
           | Some s1 \<Rightarrow>
               (case process_call_event fails now ev s1 of
                  None \<Rightarrow> (None, s1)
                | Some s2 \<Rightarrow> (Some (Response 200 Received), s2))))"

section \<open>Rows per key, and events the payment webhook can process\<close>

text \<open>
  The number of rows of the subscriptions table that carry an event id, or an email; and a
  database that takes both statements of \<open>saveCallLog\<close>.
\<close>

definition event_rows :: "string option \<Rightarrow> subscription list \<Rightarrow> nat" where
  "event_rows e tbl = length (filter (\<lambda>r. sql_eq (stripe_event_id r) e) tbl)"

definition email_rows :: "string option \<Rightarrow> subscription list \<Rightarrow> nat" where
  "email_rows em tbl = length (filter (\<lambda>r. sql_eq (sub_email r) em) tbl)"

definition no_fault :: "(stmt \<Rightarrow> bool) \<Rightarrow> bool" where
  "no_fault fails = (\<not> fails UpdateCallLog \<and> \<not> fails InsertCallLog)"

text \<open>
  The shape of a verified event that the handler reads without a guard: \<open>event.data.object\<close>
  is there, and the object of a call event has a \<open>type\<close>.
\<close>

definition well_formed_event :: "stripe_event \<Rightarrow> bool" where
  "well_formed_event ev =
     (case ev_data_object ev of
        None \<Rightarrow> False
      | Some obj \<Rightarrow> if event_type ev = Some ''call.inbound.completed'' then o_type obj \<noteq> None else True)"

section \<open>What a handler publishes\<close>

text \<open>
  The events after a handler are those before it followed by one \<open>callUpdate\<close> with the
  record now stored; or by the count of ongoing calls of the registry and then that record.
\<close>

definition publishes_record :: "emit list \<Rightarrow> emit list \<Rightarrow> call option \<Rightarrow> bool" where
  "publishes_record before after stored =
     (case stored of None \<Rightarrow> False | Some c \<Rightarrow> after = before @ [CallUpdate c])"

definition publishes_count_and_record ::
  "emit list \<Rightarrow> emit list \<Rightarrow> call list \<Rightarrow> call option \<Rightarrow> bool" where
  "publishes_count_and_record before after registry stored =
     (case stored of
        None \<Rightarrow> False
      | Some c \<Rightarrow> after = before @ [ActiveCalls (ongoing registry), CallUpdate c])"

section \<open>Sample users, calls and states\<close>

definition alice :: user where
  "alice = \<lparr>email = ''alice@example.com'', role = None\<rparr>"

definition bob :: user where
  "bob = \<lparr>email = ''bob@example.com'', role = Some ''user''\<rparr>"

definition carol :: user where
  "carol = \<lparr>email = ''carol@example.com'', role = Some ''Admin''\<rparr>"

definition inbound_ringing :: call where
  "inbound_ringing =
     \<lparr>id = ''call-1'', status = Some ''ringing'', direction = Some ''inbound'', startTime = 1000,
      duration = 0, endTime = None, user_email = ''alice@example.com'',
      from_number = Some ''+15550100'', customer_number = None, assistantId = None,
      agentId = None, call_notes = None, monitor_controlUrl = Some ''https://ctl.example/call-1''\<rparr>"

definition outbound_ongoing :: call where
  "outbound_ongoing =
     \<lparr>id = ''call-2'', status = Some ''ongoing'', direction = Some ''outbound'', startTime = 3000,
      duration = 0, endTime = None, user_email = ''bob@example.com'',
      from_number = Some ''+15550111'', customer_number = Some ''+15550111'', assistantId = Some ''asst-7'',
      agentId = None, call_notes = None, monitor_controlUrl = None\<rparr>"

definition outbound_ended :: call where
  "outbound_ended =
     \<lparr>id = ''call-3'', status = Some ''ended'', direction = Some ''outbound'', startTime = 2000,
      duration = 7, endTime = Some 9000, user_email = ''alice@example.com'',
      from_number = Some ''+15550122'', customer_number = Some ''+15550122'', assistantId = None,
      agentId = None, call_notes = None, monitor_controlUrl = None\<rparr>"

definition idle_server :: server where
  "idle_server =
     \<lparr>activeCalls = 0, emitted = [], users = [], subscriptions = [], call_logs = [],
      saveCallLog_calls = [], callLogsMap = []\<rparr>"

definition busy_server :: server where
  "busy_server =
     \<lparr>activeCalls = 1, emitted = [], users = [], subscriptions = [], call_logs = [],
      saveCallLog_calls = [],
      callLogsMap = [(''call-1'', inbound_ringing), (''call-2'', outbound_ongoing),
                     (''call-3'', outbound_ended)]\<rparr>"

definition idle_legacy :: legacy_server where
  "idle_legacy =
     \<lparr>activeCalls = 0, emitted = [], users = [], subscriptions = [], call_logs = [],
      saveCallLog_calls = [], callLogs = []\<rparr>"

definition ringing_reply :: vapi_call where
  "ringing_reply =
     \<lparr>v_id = ''call-9'', v_status = Some ''ringing'', v_customer_number = Some ''+15550133'',
      v_createdAt = Some 4000, v_assistantId = Some ''asst-7'', v_monitor_controlUrl = None\<rparr>"

definition bare_reply :: vapi_call where
  "bare_reply =
     \<lparr>v_id = ''call-8'', v_status = None, v_customer_number = Some ''+15550133'',
      v_createdAt = None, v_assistantId = None, v_monitor_controlUrl = None\<rparr>"

definition ring_event :: call_event where
  "ring_event =
     \<lparr>e_id = ''call-5'', e_direction = Some ''inbound'', e_customer_number = Some ''+15550144'',
      e_createdAt = Some 7000, e_status = Some ''ringing'', e_duration = None,
      e_monitor_controlUrl = Some ''https://ctl.example/call-5''\<rparr>"

definition progress_event :: call_event where
  "progress_event =
     \<lparr>e_id = ''call-5'', e_direction = Some ''inbound'', e_customer_number = Some ''+15550144'',
      e_createdAt = Some 7000, e_status = Some ''ongoing'', e_duration = None,
      e_monitor_controlUrl = None\<rparr>"

definition ring_body :: inbound_body where
  "ring_body = \<lparr>data_object = None, body_call = Some ring_event\<rparr>"

definition checkout_session :: event_object where
  "checkout_session =
     \<lparr>customer_email = Some ''alice@example.com'', subscription_ref = Some ''sub_1'',
      metadata_plan = Some ''pro'', amount_total = Some 4900, o_id = ''cs_1'',
      o_customer_number = None, o_type = None, o_status = Some ''complete'', o_createdAt = None,
      o_duration = None, o_agentId = None\<rparr>"

definition checkout_event :: stripe_event where
  "checkout_event =
     \<lparr>ev_id = ''evt_1'', ev_type = Some ''checkout.session.completed'', ev_call = False,
      ev_data_object = Some checkout_session\<rparr>"

definition voice_event :: stripe_event where
  "voice_event = \<lparr>ev_id = [], ev_type = None, ev_call = True, ev_data_object = None\<rparr>"

section \<open>Facts about the registry and the listing\<close>

lemmas js_defs =
  truthy_def or_else_def or_null_def or_opt_def show_opt_def toLowerCase_def lower_char_def
  isAdminRole_def

lemmas sample_defs =
  alice_def bob_def carol_def inbound_ringing_def outbound_ongoing_def outbound_ended_def
  idle_server_def busy_server_def idle_legacy_def ringing_reply_def bare_reply_def
  ring_event_def progress_event_def ring_body_def checkout_session_def checkout_event_def
  voice_event_def

lemma map_get_map_set: "map_get k (map_set k v m) = Some v"
  by (induction m) auto

lemma map_get_in_values: "map_get k m = Some c \<Longrightarrow> c \<in> set (map_values m)"
  by (induction m) (auto simp: map_values_def split: if_splits)

lemma sorted_sort_desc: "sorted_wrt (\<lambda>a b. startTime b \<le> startTime a) (sort_desc cs)"
proof -
  have "sorted (map (\<lambda>c. - startTime c) (sort_desc cs))"
    unfolding sort_desc_def by (rule sorted_sort_key)
  then show ?thesis
    by (simp add: sorted_map)
qed

lemma mset_sort_desc: "mset (sort_desc cs) = mset cs"
  by (simp add: sort_desc_def)

lemma set_sort_desc: "set (sort_desc cs) = set cs"
  by (simp add: sort_desc_def)

section \<open>Ownership of the control actions\<close>

text \<open>
  C8. \<open>POST /api/calls/end/:id\<close> answers 403 whenever the caller is neither the owner of
  the record nor an admin, and leaves the state as it was. \<open>POST /api/calls/answer/:id\<close> and
  \<open>POST /api/calls/reject/:id\<close> make no ownership check: their response and their effect
  are the same for any two authenticated users.
\<close>

theorem end_checks_owner_answer_reject_do_not:
  "(map_get callId (callLogsMap s) = Some c \<and> user_email c \<noteq> email u \<and> \<not> isAdminRole u \<longrightarrow>
      end_call u callId now post fails s =
        (Response 403 (ErrorBody ''Forbidden: You cannot end this call.''), s))
   \<and> answer_call u callId post s = answer_call u' callId post s
   \<and> reject_call u callId post s = reject_call u' callId post s"
  by (simp add: end_call_def answer_call_def reject_call_def)

theorem end_checks_owner_answer_reject_do_not_witness:
  "map_get ''call-1'' (callLogsMap busy_server) = Some inbound_ringing
   \<and> user_email inbound_ringing \<noteq> email bob \<and> \<not> isAdminRole bob
   \<and> end_call bob ''call-1'' 5000 (Resolved ()) db_up busy_server =
        (Response 403 (ErrorBody ''Forbidden: You cannot end this call.''), busy_server)
   \<and> answer_call bob ''call-1'' (Resolved ()) busy_server =
        answer_call alice ''call-1'' (Resolved ()) busy_server"
  using end_checks_owner_answer_reject_do_not
          [of "''call-1''" busy_server inbound_ringing bob 5000 "Resolved ()" db_up alice]
  by (simp add: sample_defs js_defs)

section \<open>The listing\<close>

text \<open>
  C6. \<open>GET /api/calls\<close> answers with the records of the registry ordered by start time,
  latest first. A caller who is not an admin gets exactly the records whose \<open>user_email\<close>
  is the caller's email, never a record of another owner; an admin gets all records.
\<close>

theorem get_calls_owner_filtered_latest_first:
  "\<exists>logs. get_calls u s = Response 200 (CallsBody logs)
      \<and> sorted_wrt (\<lambda>a b. startTime b \<le> startTime a) logs
      \<and> (if isAdminRole u then mset logs = mset (map_values (callLogsMap s))
          else mset logs = mset (filter (\<lambda>c. user_email c = email u) (map_values (callLogsMap s)))
               \<and> (\<forall>c\<in>set logs. user_email c = email u))"
  by (auto simp: get_calls_def Let_def sorted_sort_desc mset_sort_desc sorted_wrt_filter)

theorem get_calls_owner_filtered_latest_first_witness:
  "get_calls alice busy_server = Response 200 (CallsBody [outbound_ended, inbound_ringing])
   \<and> \<not> isAdminRole alice
   \<and> user_email outbound_ended = email alice \<and> user_email inbound_ringing = email alice
   \<and> user_email outbound_ongoing = email bob
   \<and> get_calls carol busy_server =
        Response 200 (CallsBody [outbound_ongoing, outbound_ended, inbound_ringing])"
  using get_calls_owner_filtered_latest_first [of alice busy_server]
  by (simp add: get_calls_def sort_desc_def map_values_def sample_defs js_defs)

section \<open>Control actions from a state that does not allow them\<close>

text \<open>
  C3, as the code has it. On a stored call whose status is not \<open>ringing\<close>, answer and
  reject respond 400 and leave the whole state as it was. On a stored call that is already
  \<open>completed\<close> or \<open>ended\<close>, end by the owner or an admin responds 200 with the message
  "Call already ended" and the record, and leaves the whole state, the call log table
  included, as it was.
\<close>

theorem invalid_source_state_leaves_record:
  "map_get callId (callLogsMap s) = Some c \<Longrightarrow>
   (status c \<noteq> Some ''ringing'' \<longrightarrow>
      (\<exists>msg. answer_call u callId post s = (Response 400 (ErrorBody msg), s)) \<and>
      (\<exists>msg. reject_call u callId post s = (Response 400 (ErrorBody msg), s)))
   \<and> ((status c = Some ''completed'' \<or> status c = Some ''ended'')
        \<and> (user_email c = email u \<or> isAdminRole u) \<longrightarrow>
      end_call u callId now post fails s = (Response 200 (MessageBody ''Call already ended'' c), s))"
  by (auto simp: answer_call_def reject_call_def end_call_def)

theorem invalid_source_state_leaves_record_witness:
  "map_get ''call-3'' (callLogsMap busy_server) = Some outbound_ended
   \<and> status outbound_ended \<noteq> Some ''ringing''
   \<and> status outbound_ended = Some ''ended'' \<and> user_email outbound_ended = email alice
   \<and> answer_call alice ''call-3'' (Resolved ()) busy_server =
        (Response 400 (ErrorBody ''Not an inbound call''), busy_server)
   \<and> end_call alice ''call-3'' 9500 (Resolved ()) db_up busy_server =
        (Response 200 (MessageBody ''Call already ended'' outbound_ended), busy_server)"
  using invalid_source_state_leaves_record
          [of "''call-3''" busy_server outbound_ended alice "Resolved ()" 9500 db_up]
  by (simp add: answer_call_def sample_defs js_defs)

text \<open>
  The owner ends a call that has already ended: the status code is 200, not 400.
\<close>

theorem end_on_ended_call_counterexample:
  "status outbound_ended = Some ''ended''
   \<and> end_call alice ''call-3'' 9500 (Resolved ()) db_up busy_server =
        (Response 200 (MessageBody ''Call already ended'' outbound_ended), busy_server)
   \<and> status_code (fst (end_call alice ''call-3'' 9500 (Resolved ()) db_up busy_server)) \<noteq> 400"
  by (simp add: end_call_def sample_defs js_defs)

section \<open>Ending a call locally\<close>

lemma end_locally_effect:
  "end_locally u callId now fails c s = (r, s') \<Longrightarrow>
     r = Response 200 (MessageBody ''Call ended locally (Vapi control failed or unavailable)'' (ended_locally c now))
     \<and> map_get callId (callLogsMap s') = Some (ended_locally c now)
     \<and> saveCallLog_calls s' = saveCallLog_calls s @ [fallback_callData u (ended_locally c now)]
     \<and> call_logs s' = saveCallLog fails (fallback_callData u (ended_locally c now)) (call_logs s)
     \<and> emitted s' = emitted s @
           [ActiveCalls (ongoing (map_values (callLogsMap s'))), CallUpdate (ended_locally c now)]
     \<and> activeCalls s' = ongoing (map_values (callLogsMap s'))"
  by (auto simp: end_locally_def Let_def notifyClients_def updateActiveCalls_def
                 do_saveCallLog_def map_get_map_set)

lemma saveCallLog_stores:
  "call_id d \<noteq> [] \<Longrightarrow> \<not> fails UpdateCallLog \<Longrightarrow> \<not> fails InsertCallLog \<Longrightarrow>
   call_log_row d \<in> set (saveCallLog fails d tbl)"
proof (cases "affectedRows (call_id d) tbl = 0")
  case True
  assume "call_id d \<noteq> []" "\<not> fails UpdateCallLog" "\<not> fails InsertCallLog"
  with True show ?thesis by (simp add: saveCallLog_def)
next
  case False
  assume a: "call_id d \<noteq> []" "\<not> fails UpdateCallLog" "\<not> fails InsertCallLog"
  from False obtain r where r: "r \<in> set tbl" "call_id r = call_id d"
    by (auto simp: affectedRows_def filter_empty_conv)
  then have "call_log_row d \<in> (\<lambda>r. if call_id r = call_id d then call_log_row d else r) ` set tbl"
    by force
  with a False show ?thesis by (simp add: saveCallLog_def)
qed

section \<open>A control action whose dispatch to the provider fails\<close>

text \<open>
  C7, as the code has it. The call is stored and has a control URL, and the request to the
  control URL rejects. For end, by the owner or an admin on a call that is not yet
  completed or ended, the handler marks the call completed locally, stores it, calls
  \<open>saveCallLog\<close> once with the completed record, and responds 200; when the database
  takes the statements the row is in the call log table. For answer and reject on a ringing
  inbound call the handler responds 500 and leaves the whole state as it was: the call
  stays \<open>ringing\<close> and nothing is saved.
\<close>

theorem provider_failure_falls_back_on_end_only:
  assumes "map_get callId (callLogsMap s) = Some c" and "truthy (monitor_controlUrl c)"
  shows "(status c \<noteq> Some ''completed'' \<and> status c \<noteq> Some ''ended''
            \<and> (user_email c = email u \<or> isAdminRole u) \<longrightarrow>
          (case end_call u callId now (Rejected m) fails s of (r, s') \<Rightarrow>
             r = Response 200 (MessageBody ''Call ended locally (Vapi control failed or unavailable)''
                    (ended_locally c now))
             \<and> map_get callId (callLogsMap s') = Some (ended_locally c now)
             \<and> status (ended_locally c now) = Some ''completed''
             \<and> saveCallLog_calls s' = saveCallLog_calls s @ [fallback_callData u (ended_locally c now)]
             \<and> call_logs s' = saveCallLog fails (fallback_callData u (ended_locally c now)) (call_logs s)
             \<and> (id c \<noteq> [] \<and> \<not> fails UpdateCallLog \<and> \<not> fails InsertCallLog \<longrightarrow>
                  call_log_row (fallback_callData u (ended_locally c now)) \<in> set (call_logs s'))))
       \<and> (direction c = Some ''inbound'' \<and> status c = Some ''ringing'' \<longrightarrow>
            answer_call u callId (Rejected m) s =
              (Response 500 (ErrorBody (or_else m ''Failed to answer call'')), s)
          \<and> reject_call u callId (Rejected m) s =
              (Response 500 (ErrorBody (or_else m ''Failed to reject call'')), s))"
proof (intro conjI impI)
  assume a: "status c \<noteq> Some ''completed'' \<and> status c \<noteq> Some ''ended''
            \<and> (user_email c = email u \<or> isAdminRole u)"
  obtain r s' where e: "end_locally u callId now fails c s = (r, s')"
    by (cases "end_locally u callId now fails c s")
  from a assms have "end_call u callId now (Rejected m) fails s = end_locally u callId now fails c s"
    by (auto simp: end_call_def)
  moreover have "id c \<noteq> [] \<and> \<not> fails UpdateCallLog \<and> \<not> fails InsertCallLog \<longrightarrow>
      call_log_row (fallback_callData u (ended_locally c now))
        \<in> set (saveCallLog fails (fallback_callData u (ended_locally c now)) (call_logs s))"
    by (auto intro!: saveCallLog_stores simp: fallback_callData_def ended_locally_def)
  ultimately show "case end_call u callId now (Rejected m) fails s of (r, s') \<Rightarrow>
             r = Response 200 (MessageBody ''Call ended locally (Vapi control failed or unavailable)''
                    (ended_locally c now))
             \<and> map_get callId (callLogsMap s') = Some (ended_locally c now)
             \<and> status (ended_locally c now) = Some ''completed''
             \<and> saveCallLog_calls s' = saveCallLog_calls s @ [fallback_callData u (ended_locally c now)]
             \<and> call_logs s' = saveCallLog fails (fallback_callData u (ended_locally c now)) (call_logs s)
             \<and> (id c \<noteq> [] \<and> \<not> fails UpdateCallLog \<and> \<not> fails InsertCallLog \<longrightarrow>
                  call_log_row (fallback_callData u (ended_locally c now)) \<in> set (call_logs s'))"
    using end_locally_effect [OF e] e by (simp add: ended_locally_def)
next
  assume "direction c = Some ''inbound'' \<and> status c = Some ''ringing''"
  with assms show "answer_call u callId (Rejected m) s =
              (Response 500 (ErrorBody (or_else m ''Failed to answer call'')), s)"
    by (simp add: answer_call_def)
next
  assume "direction c = Some ''inbound'' \<and> status c = Some ''ringing''"
  with assms show "reject_call u callId (Rejected m) s =
              (Response 500 (ErrorBody (or_else m ''Failed to reject call'')), s)"
    by (simp add: reject_call_def)
qed


theorem provider_failure_falls_back_on_end_only_witness:
  "map_get ''call-1'' (callLogsMap busy_server) = Some inbound_ringing
   \<and> truthy (monitor_controlUrl inbound_ringing)
   \<and> status inbound_ringing = Some ''ringing'' \<and> direction inbound_ringing = Some ''inbound''
   \<and> user_email inbound_ringing = email alice
   \<and> fst (end_call alice ''call-1'' 61000 (Rejected None) db_up busy_server) =
        Response 200 (MessageBody ''Call ended locally (Vapi control failed or unavailable)''
          (ended_locally inbound_ringing 61000))
   \<and> duration (ended_locally inbound_ringing 61000) = 60
   \<and> call_logs (snd (end_call alice ''call-1'' 61000 (Rejected None) db_up busy_server)) =
        [call_log_row (fallback_callData alice (ended_locally inbound_ringing 61000))]
   \<and> answer_call alice ''call-1'' (Rejected None) busy_server =
        (Response 500 (ErrorBody ''Failed to answer call''), busy_server)"
  using provider_failure_falls_back_on_end_only
          [where callId = "''call-1''" and s = busy_server and c = inbound_ringing and u = alice
             and now = 61000 and m = None and fails = db_up]
  by (simp add: saveCallLog_def affectedRows_def fallback_callData_def ended_locally_def db_up_def
                sample_defs js_defs split: prod.splits)

text \<open>
  Answering a ringing inbound call while the provider rejects the request: the response
  is 500, the call stays \<open>ringing\<close>, and nothing is written.
\<close>

theorem answer_dispatch_failure_counterexample:
  "answer_call alice ''call-1'' (Rejected None) busy_server =
     (Response 500 (ErrorBody ''Failed to answer call''), busy_server)
   \<and> map_option status (map_get ''call-1'' (callLogsMap busy_server)) = Some (Some ''ringing'')
   \<and> saveCallLog_calls busy_server = [] \<and> call_logs busy_server = []"
  by (simp add: answer_call_def sample_defs js_defs)

section \<open>Ending a call that has no control URL\<close>

text \<open>
  C2, as the code has it. For a stored call without a control URL whose status is neither
  \<open>completed\<close> nor \<open>ended\<close>, \<open>POST /api/calls/end/:id\<close> by the owner sets the status
  to \<open>completed\<close>, sets the duration to the whole seconds from \<open>startTime\<close> to now,
  and calls \<open>saveCallLog\<close> exactly once, with the completed record. An end request that
  does not answer "Call ended locally" (not found, forbidden, already ended, command sent
  to the provider) calls \<open>saveCallLog\<close> not at all and leaves the table as it was.
\<close>

theorem end_without_control_url:
  "(map_get callId (callLogsMap s) = Some c \<and> \<not> truthy (monitor_controlUrl c)
      \<and> user_email c = email u
      \<and> status c \<noteq> Some ''completed'' \<and> status c \<noteq> Some ''ended'' \<longrightarrow>
      (case end_call u callId now post fails s of (r, s') \<Rightarrow>
         r = Response 200 (MessageBody ''Call ended locally (Vapi control failed or unavailable)''
                (ended_locally c now))
         \<and> map_get callId (callLogsMap s') = Some (ended_locally c now)
         \<and> status (ended_locally c now) = Some ''completed''
         \<and> duration (ended_locally c now) = (now - startTime c) div 1000
         \<and> saveCallLog_calls s' = saveCallLog_calls s @ [fallback_callData u (ended_locally c now)]
         \<and> call_logs s' = saveCallLog fails (fallback_callData u (ended_locally c now)) (call_logs s)))
   \<and> ((\<forall>c'. fst (end_call u callId now post fails s) \<noteq>
             Response 200 (MessageBody ''Call ended locally (Vapi control failed or unavailable)'' c')) \<longrightarrow>
        saveCallLog_calls (snd (end_call u callId now post fails s)) = saveCallLog_calls s
        \<and> call_logs (snd (end_call u callId now post fails s)) = call_logs s)"
proof (rule conjI; rule impI)
  assume a: "map_get callId (callLogsMap s) = Some c \<and> \<not> truthy (monitor_controlUrl c)
      \<and> user_email c = email u
      \<and> status c \<noteq> Some ''completed'' \<and> status c \<noteq> Some ''ended''"
  obtain r s' where e: "end_locally u callId now fails c s = (r, s')"
    by (cases "end_locally u callId now fails c s")
  from a have "end_call u callId now post fails s = end_locally u callId now fails c s"
    by (simp add: end_call_def)
  then show "case end_call u callId now post fails s of (r, s') \<Rightarrow>
         r = Response 200 (MessageBody ''Call ended locally (Vapi control failed or unavailable)''
                (ended_locally c now))
         \<and> map_get callId (callLogsMap s') = Some (ended_locally c now)
         \<and> status (ended_locally c now) = Some ''completed''
         \<and> duration (ended_locally c now) = (now - startTime c) div 1000
         \<and> saveCallLog_calls s' = saveCallLog_calls s @ [fallback_callData u (ended_locally c now)]
         \<and> call_logs s' = saveCallLog fails (fallback_callData u (ended_locally c now)) (call_logs s)"
    using end_locally_effect [OF e] e by (simp add: ended_locally_def)
next
  assume n: "\<forall>c'. fst (end_call u callId now post fails s) \<noteq>
             Response 200 (MessageBody ''Call ended locally (Vapi control failed or unavailable)'' c')"
  have l: "fst (end_locally u callId now fails c s) =
      Response 200 (MessageBody ''Call ended locally (Vapi control failed or unavailable)'' (ended_locally c now))"
    for c
    by (simp add: end_locally_def Let_def)
  from n l show "saveCallLog_calls (snd (end_call u callId now post fails s)) = saveCallLog_calls s
        \<and> call_logs (snd (end_call u callId now post fails s)) = call_logs s"
    by (auto simp: end_call_def notifyClients_def Let_def split: option.splits if_splits outcome.splits)
qed

theorem end_without_control_url_witness:
  "map_get ''call-2'' (callLogsMap busy_server) = Some outbound_ongoing
   \<and> \<not> truthy (monitor_controlUrl outbound_ongoing) \<and> user_email outbound_ongoing = email bob
   \<and> status outbound_ongoing = Some ''ongoing''
   \<and> fst (end_call bob ''call-2'' 65999 (Resolved ()) db_up busy_server) =
        Response 200 (MessageBody ''Call ended locally (Vapi control failed or unavailable)''
          (ended_locally outbound_ongoing 65999))
   \<and> duration (ended_locally outbound_ongoing 65999) = 62
   \<and> saveCallLog_calls (snd (end_call bob ''call-2'' 65999 (Resolved ()) db_up busy_server)) =
        [fallback_callData bob (ended_locally outbound_ongoing 65999)]
   \<and> fst (end_call bob ''call-1'' 65999 (Resolved ()) db_up busy_server) =
        Response 403 (ErrorBody ''Forbidden: You cannot end this call.'')
   \<and> saveCallLog_calls (snd (end_call bob ''call-1'' 65999 (Resolved ()) db_up busy_server)) = []"
  using end_without_control_url
          [where callId = "''call-2''" and s = busy_server and c = outbound_ongoing and u = bob
             and now = 65999 and post = "Resolved ()" and fails = db_up]
        end_without_control_url
          [where callId = "''call-1''" and s = busy_server and c = inbound_ringing and u = bob
             and now = 65999 and post = "Resolved ()" and fails = db_up]
  by (simp add: end_call_def ended_locally_def sample_defs js_defs split: prod.splits)

text \<open>
  The owner ends a call that has no control URL and has already ended: the status stays
  \<open>ended\<close> and \<open>saveCallLog\<close> is not called.
\<close>

theorem end_without_control_url_counterexample:
  "map_get ''call-3'' (callLogsMap busy_server) = Some outbound_ended
   \<and> \<not> truthy (monitor_controlUrl outbound_ended) \<and> user_email outbound_ended = email alice
   \<and> end_call alice ''call-3'' 9500 (Resolved ()) db_up busy_server =
        (Response 200 (MessageBody ''Call already ended'' outbound_ended), busy_server)
   \<and> map_option status (map_get ''call-3'' (callLogsMap busy_server)) = Some (Some ''ended'')
   \<and> saveCallLog_calls busy_server = []"
  by (simp add: end_call_def sample_defs js_defs)

section \<open>Starting an outbound call\<close>

lemma start_call_effect:
  "truthy phoneNumber \<Longrightarrow>
   start_call u phoneNumber now (Resolved r) s =
     (Response 200 (CallBody (newCall_of u now r)),
      s\<lparr>callLogsMap := map_set (v_id r) (newCall_of u now r) (callLogsMap s),
        emitted := emitted s @ [CallUpdate (newCall_of u now r)]\<rparr>)"
  by (simp add: start_call_def Let_def notifyClients_def newCall_of_def)

lemma get_calls_lists_own:
  assumes "map_get k (callLogsMap s) = Some c" and "user_email c = email u"
  shows "\<exists>logs. get_calls u s = Response 200 (CallsBody logs) \<and> c \<in> set logs"
proof -
  from assms(1) have "c \<in> set (sort_desc (map_values (callLogsMap s)))"
    by (simp add: set_sort_desc map_get_in_values)
  with assms(2) show ?thesis
    by (simp add: get_calls_def Let_def)
qed

text \<open>
  C5, as the code has it. After a successful \<open>POST /api/calls/start\<close> (a phone number was
  given and the provider accepted the command) the registry holds, under the provider's
  call id, the record the response carries: its status is the status of the provider's
  reply when that has one and \<open>queued\<close> otherwise, its direction is \<open>outbound\<close>, its
  \<open>user_email\<close> is the caller's email; and \<open>GET /api/calls\<close> by the same user right
  afterwards lists this record.
\<close>

theorem start_stores_record_listed_for_owner:
  "truthy phoneNumber \<Longrightarrow>
   \<exists>c s'. start_call u phoneNumber now (Resolved r) s = (Response 200 (CallBody c), s')
      \<and> map_get (v_id r) (callLogsMap s') = Some c
      \<and> status c = Some (or_else (v_status r) ''queued'')
      \<and> direction c = Some ''outbound''
      \<and> user_email c = email u
      \<and> (\<exists>logs. get_calls u s' = Response 200 (CallsBody logs) \<and> c \<in> set logs)"
proof -
  assume p: "truthy phoneNumber"
  let ?c = "newCall_of u now r"
  let ?s = "s\<lparr>callLogsMap := map_set (v_id r) ?c (callLogsMap s), emitted := emitted s @ [CallUpdate ?c]\<rparr>"
  have g: "map_get (v_id r) (callLogsMap ?s) = Some ?c"
    by (simp add: map_get_map_set)
  have o: "user_email ?c = email u"
    by (simp add: newCall_of_def)
  from get_calls_lists_own [OF g o] g o start_call_effect [OF p, of u now r s]
  show ?thesis
    by (auto simp: newCall_of_def)
qed

theorem start_stores_record_listed_for_owner_witness:
  "truthy (Some ''+15550133'')
   \<and> start_call alice (Some ''+15550133'') 5000 (Resolved bare_reply) busy_server =
       (Response 200 (CallBody (newCall_of alice 5000 bare_reply)),
        busy_server\<lparr>callLogsMap := callLogsMap busy_server @ [(''call-8'', newCall_of alice 5000 bare_reply)],
                    emitted := [CallUpdate (newCall_of alice 5000 bare_reply)]\<rparr>)
   \<and> status (newCall_of alice 5000 bare_reply) = Some ''queued''
   \<and> get_calls alice (snd (start_call alice (Some ''+15550133'') 5000 (Resolved bare_reply) busy_server)) =
       Response 200 (CallsBody [newCall_of alice 5000 bare_reply, outbound_ended, inbound_ringing])"
  using start_stores_record_listed_for_owner
          [where phoneNumber = "Some ''+15550133''" and u = alice and now = 5000 and r = bare_reply
             and s = busy_server]
  by (simp add: start_call_def Let_def notifyClients_def newCall_of_def get_calls_def sort_desc_def map_values_def
        sample_defs js_defs)

text \<open>
  The provider answers the place-call command with the status \<open>ringing\<close>: the new record
  has the status \<open>ringing\<close>, not \<open>queued\<close>.
\<close>

theorem start_status_from_provider_counterexample:
  "start_call alice (Some ''+15550133'') 5000 (Resolved ringing_reply) idle_server =
     (Response 200 (CallBody (newCall_of alice 5000 ringing_reply)),
      idle_server\<lparr>callLogsMap := [(''call-9'', newCall_of alice 5000 ringing_reply)],
                  emitted := [CallUpdate (newCall_of alice 5000 ringing_reply)]\<rparr>)
   \<and> status (newCall_of alice 5000 ringing_reply) = Some ''ringing''
   \<and> status (newCall_of alice 5000 ringing_reply) \<noteq> Some ''queued''"
  by (simp add: start_call_def Let_def notifyClients_def newCall_of_def sample_defs js_defs)

section \<open>The webhooks on the array of calls\<close>

lemma find_after_update:
  "findIndex P cs = Some i \<Longrightarrow> P n \<Longrightarrow> find P (cs[i := n]) = Some n"
  by (induction cs arbitrary: i) (auto split: if_splits)

lemma find_store_call: "find (\<lambda>c. id c = id n) (store_call n cs) = Some n"
  by (cases "findIndex (\<lambda>c. id c = id n) cs") (simp_all add: store_call_def find_after_update)

lemma webhook_newCall_id: "id (webhook_newCall ue f now mon e) = e_id e"
  by (simp add: webhook_newCall_def)

lemma legacy_webhook_effect:
  "\<exists>c. legacy_webhook fails now (Some e) ls =
         (Response 200 NoBody,
          ls\<lparr>callLogs := store_call c (callLogs ls),
             activeCalls := ongoing (store_call c (callLogs ls)),
             emitted := emitted ls @ [ActiveCalls (ongoing (store_call c (callLogs ls))), CallUpdate c]\<rparr>)
       \<and> id c = e_id e \<and> monitor_controlUrl c = e_monitor_controlUrl e \<and> status c = e_status e"
  by (cases "e_customer_number e")
     (auto simp: legacy_webhook_def Let_def notifyClients_def legacy_updateActiveCalls_def webhook_newCall_def)

lemma inbound_webhook_effect:
  "extract_callEvent b = Some e \<Longrightarrow>
   \<exists>c. inbound_webhook fails now b ls =
         (Response 200 Received,
          ls\<lparr>callLogs := store_call c (callLogs ls),
             activeCalls := ongoing (store_call c (callLogs ls)),
             emitted := emitted ls @ [ActiveCalls (ongoing (store_call c (callLogs ls))), CallUpdate c],
             call_logs := saveCallLog fails (inbound_callData c) (call_logs ls),
             saveCallLog_calls := saveCallLog_calls ls @ [inbound_callData c]\<rparr>)
       \<and> id c = e_id e \<and> monitor_controlUrl c = None \<and> status c = e_status e"
  by (auto simp: inbound_webhook_def Let_def notifyClients_def legacy_updateActiveCalls_def
                 do_saveCallLog_def webhook_newCall_def)

section \<open>What is broadcast after a mutation\<close>

text \<open>
  C10, as the current revision of server.js has it. Every mutation of the registry by
  outbound start or by a control action publishes the full updated record: start, answer,
  reject and an end whose command the provider accepted emit one \<open>callUpdate\<close> with the
  record now stored, and nothing else. The end that finishes the call locally emits the
  recomputed count first and then the record; the count published equals the number of
  records of the registry whose status is \<open>ongoing\<close> at that moment, and is the new value
  of \<open>activeCalls\<close>.
\<close>

theorem mutations_publish_record_and_fresh_count:
  "(truthy phoneNumber \<longrightarrow>
      (case start_call u phoneNumber now (Resolved r) s of (resp, s') \<Rightarrow>
         publishes_record (emitted s) (emitted s') (map_get (v_id r) (callLogsMap s'))))
   \<and> (map_get callId (callLogsMap s) = Some c \<and> direction c = Some ''inbound''
        \<and> status c = Some ''ringing'' \<and> truthy (monitor_controlUrl c) \<longrightarrow>
      (case answer_call u callId (Resolved ()) s of (resp, s') \<Rightarrow>
         publishes_record (emitted s) (emitted s') (map_get callId (callLogsMap s')))
      \<and> (case reject_call u callId (Resolved ()) s of (resp, s') \<Rightarrow>
         publishes_record (emitted s) (emitted s') (map_get callId (callLogsMap s'))))
   \<and> (map_get callId (callLogsMap s) = Some c \<and> (user_email c = email u \<or> isAdminRole u)
        \<and> status c \<noteq> Some ''completed'' \<and> status c \<noteq> Some ''ended'' \<longrightarrow>
      (case end_call u callId now post fails s of (resp, s') \<Rightarrow>
         if truthy (monitor_controlUrl c) \<and> post = Resolved ()
         then publishes_record (emitted s) (emitted s') (map_get callId (callLogsMap s'))
         else publishes_count_and_record (emitted s) (emitted s') (map_values (callLogsMap s'))
                (map_get callId (callLogsMap s'))
              \<and> activeCalls s' = ongoing (map_values (callLogsMap s'))))"
proof (intro conjI)
  show "truthy phoneNumber \<longrightarrow>
      (case start_call u phoneNumber now (Resolved r) s of (resp, s') \<Rightarrow>
         publishes_record (emitted s) (emitted s') (map_get (v_id r) (callLogsMap s')))"
    by (simp add: start_call_effect publishes_record_def map_get_map_set)
next
  show "map_get callId (callLogsMap s) = Some c \<and> direction c = Some ''inbound''
        \<and> status c = Some ''ringing'' \<and> truthy (monitor_controlUrl c) \<longrightarrow>
      (case answer_call u callId (Resolved ()) s of (resp, s') \<Rightarrow>
         publishes_record (emitted s) (emitted s') (map_get callId (callLogsMap s')))
      \<and> (case reject_call u callId (Resolved ()) s of (resp, s') \<Rightarrow>
         publishes_record (emitted s) (emitted s') (map_get callId (callLogsMap s')))"
    by (simp add: answer_call_def reject_call_def Let_def notifyClients_def publishes_record_def
                  map_get_map_set)
next
  show "map_get callId (callLogsMap s) = Some c \<and> (user_email c = email u \<or> isAdminRole u)
        \<and> status c \<noteq> Some ''completed'' \<and> status c \<noteq> Some ''ended'' \<longrightarrow>
      (case end_call u callId now post fails s of (resp, s') \<Rightarrow>
         if truthy (monitor_controlUrl c) \<and> post = Resolved ()
         then publishes_record (emitted s) (emitted s') (map_get callId (callLogsMap s'))
         else publishes_count_and_record (emitted s) (emitted s') (map_values (callLogsMap s'))
                (map_get callId (callLogsMap s'))
              \<and> activeCalls s' = ongoing (map_values (callLogsMap s')))"
  proof (intro impI)
    assume a: "map_get callId (callLogsMap s) = Some c \<and> (user_email c = email u \<or> isAdminRole u)
        \<and> status c \<noteq> Some ''completed'' \<and> status c \<noteq> Some ''ended''"
    obtain r' s' where e: "end_locally u callId now fails c s = (r', s')"
      by (cases "end_locally u callId now fails c s")
    show "case end_call u callId now post fails s of (resp, s') \<Rightarrow>
         if truthy (monitor_controlUrl c) \<and> post = Resolved ()
         then publishes_record (emitted s) (emitted s') (map_get callId (callLogsMap s'))
         else publishes_count_and_record (emitted s) (emitted s') (map_values (callLogsMap s'))
                (map_get callId (callLogsMap s'))
              \<and> activeCalls s' = ongoing (map_values (callLogsMap s'))"
    proof (cases "truthy (monitor_controlUrl c) \<and> post = Resolved ()")
      case True
      with a show ?thesis
        by (auto simp: end_call_def Let_def notifyClients_def publishes_record_def map_get_map_set)
    next
      case False
      with a have "end_call u callId now post fails s = end_locally u callId now fails c s"
        by (cases post) (auto simp: end_call_def)
      with False end_locally_effect [OF e] e show ?thesis
        by (auto simp: publishes_count_and_record_def)
    qed
  qed
qed

theorem mutations_publish_record_and_fresh_count_witness:
  "truthy (Some ''+15550133'')
   \<and> map_get ''call-1'' (callLogsMap busy_server) = Some inbound_ringing
   \<and> direction inbound_ringing = Some ''inbound'' \<and> status inbound_ringing = Some ''ringing''
   \<and> truthy (monitor_controlUrl inbound_ringing) \<and> user_email inbound_ringing = email alice
   \<and> emitted (snd (start_call alice (Some ''+15550133'') 5000 (Resolved bare_reply) busy_server)) =
        [CallUpdate (newCall_of alice 5000 bare_reply)]
   \<and> emitted (snd (answer_call alice ''call-1'' (Resolved ()) busy_server)) =
        [CallUpdate (inbound_ringing\<lparr>status := Some ''answering''\<rparr>)]
   \<and> emitted (snd (reject_call alice ''call-1'' (Resolved ()) busy_server)) =
        [CallUpdate (inbound_ringing\<lparr>status := Some ''rejecting''\<rparr>)]
   \<and> emitted (snd (end_call alice ''call-1'' 61000 (Resolved ()) db_up busy_server)) =
        [CallUpdate (inbound_ringing\<lparr>status := Some ''ending''\<rparr>)]
   \<and> emitted (snd (end_call alice ''call-1'' 61000 (Rejected None) db_up busy_server)) =
        [ActiveCalls 1, CallUpdate (ended_locally inbound_ringing 61000)]
   \<and> activeCalls (snd (end_call alice ''call-1'' 61000 (Rejected None) db_up busy_server)) = 1"
  using mutations_publish_record_and_fresh_count
          [where phoneNumber = "Some ''+15550133''" and u = alice and now = 61000 and r = bare_reply
             and s = busy_server and callId = "''call-1''" and c = inbound_ringing
             and post = "Rejected None" and fails = db_up]
        mutations_publish_record_and_fresh_count
          [where phoneNumber = "Some ''+15550133''" and u = alice and now = 61000 and r = bare_reply
             and s = busy_server and callId = "''call-1''" and c = inbound_ringing
             and post = "Resolved ()" and fails = db_up]
  by (simp add: start_call_def answer_call_def reject_call_def end_call_def end_locally_def Let_def
        notifyClients_def updateActiveCalls_def do_saveCallLog_def db_up_def ongoing_def map_values_def
        ended_locally_def newCall_of_def sample_defs js_defs)

text \<open>
  Answering a ringing call changes the registry and emits the record alone, without a
  count; so does an outbound start.
\<close>

theorem answer_publishes_no_count_counterexample:
  "answer_call alice ''call-1'' (Resolved ()) busy_server =
     (Response 200 (MessageBody ''Answer request sent'' (inbound_ringing\<lparr>status := Some ''answering''\<rparr>)),
      busy_server\<lparr>callLogsMap := [(''call-1'', inbound_ringing\<lparr>status := Some ''answering''\<rparr>),
                                   (''call-2'', outbound_ongoing), (''call-3'', outbound_ended)],
                  emitted := [CallUpdate (inbound_ringing\<lparr>status := Some ''answering''\<rparr>)]\<rparr>)
   \<and> emitted (snd (start_call alice (Some ''+15550133'') 5000 (Resolved ringing_reply) idle_server)) =
        [CallUpdate (newCall_of alice 5000 ringing_reply)]"
  by (simp add: start_call_def answer_call_def Let_def notifyClients_def newCall_of_def
        sample_defs js_defs)

section \<open>The control URL across webhook deliveries\<close>

text \<open>
  The control actions change the status of one record and nothing else, so every record
  keeps its control URL across them. A webhook delivery stores a new object: after a
  delivery to \<open>/webhook\<close> the record has the control URL of the event, present or not,
  and after a delivery to \<open>/webhook/inbound\<close> it has none.
\<close>

lemma map_get_map_set_if:
  "map_get k (map_set k' v m) = (if k = k' then Some v else map_get k m)"
  by (induction m) auto

lemma control_actions_keep_control_url:
  "map_option monitor_controlUrl (map_get k (callLogsMap (snd (answer_call u callId post s))))
     = map_option monitor_controlUrl (map_get k (callLogsMap s))"
  "map_option monitor_controlUrl (map_get k (callLogsMap (snd (reject_call u callId post s))))
     = map_option monitor_controlUrl (map_get k (callLogsMap s))"
  "map_option monitor_controlUrl (map_get k (callLogsMap (snd (end_call u callId now post fails s))))
     = map_option monitor_controlUrl (map_get k (callLogsMap s))"
  by (auto simp: answer_call_def reject_call_def end_call_def end_locally_def ended_locally_def Let_def
        notifyClients_def updateActiveCalls_def do_saveCallLog_def map_get_map_set_if
        split: option.splits outcome.splits)

lemma webhook_stores_event_control_url:
  "map_option monitor_controlUrl (legacy_get (e_id e) (snd (legacy_webhook fails now (Some e) ls)))
     = Some (e_monitor_controlUrl e)"
proof -
  obtain c where c: "legacy_webhook fails now (Some e) ls =
         (Response 200 NoBody,
          ls\<lparr>callLogs := store_call c (callLogs ls),
             activeCalls := ongoing (store_call c (callLogs ls)),
             emitted := emitted ls @ [ActiveCalls (ongoing (store_call c (callLogs ls))), CallUpdate c]\<rparr>)"
       "id c = e_id e" "monitor_controlUrl c = e_monitor_controlUrl e"
    using legacy_webhook_effect [of fails now e ls] by blast
  from c(2,3) find_store_call [of c "callLogs ls"] show ?thesis
    by (simp add: c(1) legacy_get_def)
qed

lemma inbound_webhook_stores_no_control_url:
  assumes "extract_callEvent b = Some e"
  shows "map_option monitor_controlUrl (legacy_get (e_id e) (snd (inbound_webhook fails now b ls)))
     = Some None"
proof -
  obtain c where c: "inbound_webhook fails now b ls =
         (Response 200 Received,
          ls\<lparr>callLogs := store_call c (callLogs ls),
             activeCalls := ongoing (store_call c (callLogs ls)),
             emitted := emitted ls @ [ActiveCalls (ongoing (store_call c (callLogs ls))), CallUpdate c],
             call_logs := saveCallLog fails (inbound_callData c) (call_logs ls),
             saveCallLog_calls := saveCallLog_calls ls @ [inbound_callData c]\<rparr>)"
       "id c = e_id e" "monitor_controlUrl c = None"
    using inbound_webhook_effect [OF assms, of fails now ls] by blast
  from c(2,3) find_store_call [of c "callLogs ls"] show ?thesis
    by (simp add: c(1) legacy_get_def)
qed


section \<open>Saving the same call or the same payment event twice\<close>

lemma count_map_same:
  "(\<And>r. P (g r) = P r) \<Longrightarrow> length (filter P (map g tbl)) = length (filter P tbl)"
  by (induction tbl) auto

lemma call_id_call_log_row: "call_id (call_log_row d) = call_id d"
  by (simp add: call_log_row_def)

lemma affectedRows_update:
  "affectedRows (call_id d) (map (\<lambda>r. if call_id r = call_id d then call_log_row d else r) tbl)
     = affectedRows (call_id d) tbl"
  unfolding affectedRows_def
  by (rule count_map_same) (simp add: call_id_call_log_row)

lemma affectedRows_saveCallLog_le:
  "affectedRows (call_id d) tbl \<le> 1 \<Longrightarrow> affectedRows (call_id d) (saveCallLog fails d tbl) \<le> 1"
  by (auto simp: saveCallLog_def affectedRows_update)
     (simp add: affectedRows_def call_id_call_log_row)

lemma affectedRows_saveCallLog_ge:
  "1 \<le> affectedRows (call_id d) tbl \<Longrightarrow> 1 \<le> affectedRows (call_id d) (saveCallLog fails d tbl)"
  by (auto simp: saveCallLog_def affectedRows_update)

lemma affectedRows_saveCallLog_stored:
  "call_id d \<noteq> [] \<Longrightarrow> no_fault fails \<Longrightarrow> 1 \<le> affectedRows (call_id d) (saveCallLog fails d tbl)"
  by (auto simp: saveCallLog_def affectedRows_update no_fault_def)
     (simp add: affectedRows_def call_id_call_log_row)


lemma count_filter_mono:
  "(\<And>x. x \<in> set xs \<Longrightarrow> P x \<Longrightarrow> Q x) \<Longrightarrow> length (filter P xs) \<le> length (filter Q xs)"
  by (induction xs) auto

lemma email_rows_save_by_email:
  "email_rows (sub_email d) tbl \<le> 1 \<Longrightarrow> email_rows (sub_email d) (save_by_email fails d tbl) \<le> 1"
proof -
  assume a: "email_rows (sub_email d) tbl \<le> 1"
  let ?g = "\<lambda>r. if sql_eq (sub_email r) (sub_email d)
                 then d\<lparr>sub_email := sub_email r, expiry_date := or_null (expiry_date d)\<rparr> else r"
  have "email_rows (sub_email d) (map ?g tbl) = email_rows (sub_email d) tbl"
    unfolding email_rows_def by (rule count_map_same) simp
  with a show ?thesis
    by (auto simp: save_by_email_def) (simp add: email_rows_def)
qed

lemma event_rows_save_by_email:
  assumes "email_rows (sub_email d) tbl \<le> 1" and "event_rows (stripe_event_id d) tbl = 0"
  shows "event_rows (stripe_event_id d) (save_by_email fails d tbl) \<le> 1"
proof -
  let ?g = "\<lambda>r. if sql_eq (sub_email r) (sub_email d)
                 then d\<lparr>sub_email := sub_email r, expiry_date := or_null (expiry_date d)\<rparr> else r"
  from assms(2) have none: "\<And>r. r \<in> set tbl \<Longrightarrow> \<not> sql_eq (stripe_event_id r) (stripe_event_id d)"
    by (auto simp: event_rows_def filter_empty_conv)
  have "event_rows (stripe_event_id d) (map ?g tbl)
          = length (filter (\<lambda>r. sql_eq (stripe_event_id (?g r)) (stripe_event_id d)) tbl)"
    by (simp add: event_rows_def filter_map comp_def)
  also have "\<dots> \<le> length (filter (\<lambda>r. sql_eq (sub_email r) (sub_email d)) tbl)"
    by (rule count_filter_mono) (use none in \<open>auto split: if_splits\<close>)
  finally have upd: "event_rows (stripe_event_id d) (map ?g tbl) \<le> 1"
    using assms(1) by (simp add: email_rows_def)
  from assms(2) have ins: "event_rows (stripe_event_id d) (tbl @ [d\<lparr>expiry_date := or_null (expiry_date d)\<rparr>]) \<le> 1"
    by (simp add: event_rows_def)
  from upd ins assms(2) show ?thesis
    by (simp add: save_by_email_def)
qed

lemma saveSubscriptionToDb_keeps_keys:
  assumes "saveSubscriptionToDb fails d tbl = Inr tbl'"
    and "truthy (stripe_event_id d)"
    and "event_rows (stripe_event_id d) tbl \<le> 1"
    and "email_rows (sub_email d) tbl \<le> 1"
  shows "event_rows (stripe_event_id d) tbl' \<le> 1 \<and> email_rows (sub_email d) tbl' \<le> 1"
proof (cases "filter (\<lambda>r. sql_eq (stripe_event_id r) (stripe_event_id d)) tbl = []")
  case True
  then have z: "event_rows (stripe_event_id d) tbl = 0"
    by (simp add: event_rows_def)
  from assms(1,2) True have "tbl' = save_by_email fails d tbl"
    by (auto simp: saveSubscriptionToDb_def split: if_splits)
  with event_rows_save_by_email [OF assms(4) z] email_rows_save_by_email [OF assms(4)]
  show ?thesis by simp
next
  case False
  with assms(1,2) have "tbl' = tbl"
    by (auto simp: saveSubscriptionToDb_def split: if_splits)
  with assms(3,4) show ?thesis by simp
qed

lemma saveSubscriptionToDb_skips:
  assumes "truthy (stripe_event_id d)" and "1 \<le> event_rows (stripe_event_id d) tbl"
    and "saveSubscriptionToDb fails d tbl = Inr tbl'"
  shows "tbl' = tbl"
proof -
  from assms(2) have "filter (\<lambda>r. sql_eq (stripe_event_id r) (stripe_event_id d)) tbl \<noteq> []"
    by (auto simp: event_rows_def)
  with assms(1,3) show ?thesis
    by (auto simp: saveSubscriptionToDb_def split: if_splits)
qed

lemma stripe_webhook_subscriptions:
  "subscriptions (snd (stripe_webhook sec sg (Inr ev) fails x now s)) = subscriptions s
   \<or> (\<exists>session. ev_data_object ev = Some session
        \<and> saveSubscriptionToDb fails (subscriptionData ev x session) (subscriptions s)
            = Inr (subscriptions (snd (stripe_webhook sec sg (Inr ev) fails x now s))))"
  by (auto simp: stripe_webhook_def process_checkout_def process_call_event_def do_saveCallLog_def Let_def
           split: option.splits sum.splits if_splits)


text \<open>
  C4. The call log table holds at most one row per call id to begin with. After
  \<open>saveCallLog\<close> has been called twice with the same call id it still holds at most one
  row for that id, whatever the database rejects, and exactly one when the database takes
  the statements of one of the two calls (UPDATE by \<open>call_id\<close> when the row exists, INSERT
  otherwise). The subscriptions table holds at most one row per email and per event id to
  begin with. After the payment webhook has processed the same event twice it holds at most
  one row with that event id; and once the first delivery has stored the event id, the
  second delivery finds it and leaves the table as it was.
\<close>

theorem duplicate_deliveries_store_one_row:
  "(call_id d \<noteq> [] \<and> call_id d' = call_id d \<and> affectedRows (call_id d) tbl \<le> 1 \<longrightarrow>
      affectedRows (call_id d) (saveCallLog fails' d' (saveCallLog fails d tbl)) \<le> 1
      \<and> (no_fault fails \<or> no_fault fails' \<longrightarrow>
           affectedRows (call_id d) (saveCallLog fails' d' (saveCallLog fails d tbl)) = 1))
   \<and> (ev_id ev \<noteq> [] \<and> ev_data_object ev = Some session
       \<and> event_rows (Some (ev_id ev)) (subscriptions s) \<le> 1
       \<and> email_rows (customer_email session) (subscriptions s) \<le> 1 \<longrightarrow>
      event_rows (Some (ev_id ev))
        (subscriptions (snd (stripe_webhook sec sg (Inr ev) fails' x' now'
           (snd (stripe_webhook sec sg (Inr ev) fails x now s))))) \<le> 1
      \<and> (1 \<le> event_rows (Some (ev_id ev)) (subscriptions (snd (stripe_webhook sec sg (Inr ev) fails x now s))) \<longrightarrow>
           subscriptions (snd (stripe_webhook sec sg (Inr ev) fails' x' now'
             (snd (stripe_webhook sec sg (Inr ev) fails x now s))))
           = subscriptions (snd (stripe_webhook sec sg (Inr ev) fails x now s))))"
proof (rule conjI; rule impI)
  assume a: "call_id d \<noteq> [] \<and> call_id d' = call_id d \<and> affectedRows (call_id d) tbl \<le> 1"
  let ?t1 = "saveCallLog fails d tbl"
  let ?t2 = "saveCallLog fails' d' ?t1"
  from a have ne: "call_id d \<noteq> []" and k: "call_id d' = call_id d"
    and le0: "affectedRows (call_id d) tbl \<le> 1"
    by blast+
  have le1: "affectedRows (call_id d') ?t1 \<le> 1"
    unfolding k by (rule affectedRows_saveCallLog_le [OF le0])
  have le2: "affectedRows (call_id d') ?t2 \<le> 1"
    by (rule affectedRows_saveCallLog_le [OF le1])
  have ge2: "1 \<le> affectedRows (call_id d') ?t2" if "no_fault fails \<or> no_fault fails'"
  proof (cases "no_fault fails")
    case True
    have "1 \<le> affectedRows (call_id d') ?t1"
      unfolding k by (rule affectedRows_saveCallLog_stored [OF ne True])
    then show ?thesis
      by (rule affectedRows_saveCallLog_ge)
  next
    case False
    with that have nf: "no_fault fails'" by blast
    from ne k have ne': "call_id d' \<noteq> []" by simp
    show ?thesis
      by (rule affectedRows_saveCallLog_stored [OF ne' nf])
  qed
  from le2 ge2 show "affectedRows (call_id d) ?t2 \<le> 1
      \<and> (no_fault fails \<or> no_fault fails' \<longrightarrow> affectedRows (call_id d) ?t2 = 1)"
    unfolding k by (simp add: le_antisym)
next
  assume a: "ev_id ev \<noteq> [] \<and> ev_data_object ev = Some session
       \<and> event_rows (Some (ev_id ev)) (subscriptions s) \<le> 1
       \<and> email_rows (customer_email session) (subscriptions s) \<le> 1"
  let ?s1 = "snd (stripe_webhook sec sg (Inr ev) fails x now s)"
  let ?s2 = "snd (stripe_webhook sec sg (Inr ev) fails' x' now' ?s1)"
  have step: "event_rows (Some (ev_id ev)) (subscriptions (snd (stripe_webhook sec sg (Inr ev) f y n t))) \<le> 1
      \<and> email_rows (customer_email session) (subscriptions (snd (stripe_webhook sec sg (Inr ev) f y n t))) \<le> 1"
    if "event_rows (Some (ev_id ev)) (subscriptions t) \<le> 1"
      and "email_rows (customer_email session) (subscriptions t) \<le> 1"
    for f y n and t :: "'a process_scheme"
    using stripe_webhook_subscriptions [of sec sg ev f y n t]
  proof
    assume "subscriptions (snd (stripe_webhook sec sg (Inr ev) f y n t)) = subscriptions t"
    with that show ?thesis by simp
  next
    assume "\<exists>session. ev_data_object ev = Some session
        \<and> saveSubscriptionToDb f (subscriptionData ev y session) (subscriptions t)
            = Inr (subscriptions (snd (stripe_webhook sec sg (Inr ev) f y n t)))"
    with a have sv: "saveSubscriptionToDb f (subscriptionData ev y session) (subscriptions t)
            = Inr (subscriptions (snd (stripe_webhook sec sg (Inr ev) f y n t)))"
      by auto
    from a that saveSubscriptionToDb_keeps_keys [OF sv]
    show ?thesis
      by (simp add: subscriptionData_def truthy_def)
  qed
  from a have one: "event_rows (Some (ev_id ev)) (subscriptions ?s1) \<le> 1
      \<and> email_rows (customer_email session) (subscriptions ?s1) \<le> 1"
    by (intro step) simp_all
  then have two: "event_rows (Some (ev_id ev)) (subscriptions ?s2) \<le> 1"
    using step [of ?s1 fails' x' now'] by simp
  have skip: "subscriptions ?s2 = subscriptions ?s1"
    if "1 \<le> event_rows (Some (ev_id ev)) (subscriptions ?s1)"
    using stripe_webhook_subscriptions [of sec sg ev fails' x' now' ?s1]
  proof
    assume "subscriptions ?s2 = subscriptions ?s1"
    then show ?thesis .
  next
    assume "\<exists>session. ev_data_object ev = Some session
        \<and> saveSubscriptionToDb fails' (subscriptionData ev x' session) (subscriptions ?s1)
            = Inr (subscriptions ?s2)"
    with a have sv: "saveSubscriptionToDb fails' (subscriptionData ev x' session) (subscriptions ?s1)
            = Inr (subscriptions ?s2)"
      by auto
    from a that show ?thesis
      by (intro saveSubscriptionToDb_skips [OF _ _ sv]) (simp_all add: subscriptionData_def truthy_def)
  qed
  from two skip show "event_rows (Some (ev_id ev)) (subscriptions ?s2) \<le> 1
      \<and> (1 \<le> event_rows (Some (ev_id ev)) (subscriptions ?s1) \<longrightarrow> subscriptions ?s2 = subscriptions ?s1)"
    by simp
qed


theorem duplicate_deliveries_store_one_row_witness:
  "call_id (inbound_callData inbound_ringing) \<noteq> []
   \<and> affectedRows ''call-1'' [] \<le> 1 \<and> no_fault db_up
   \<and> saveCallLog db_up (inbound_callData inbound_ringing)
        (saveCallLog db_up (inbound_callData inbound_ringing) []) =
        [call_log_row (inbound_callData inbound_ringing)]
   \<and> ev_id checkout_event \<noteq> [] \<and> ev_data_object checkout_event = Some checkout_session
   \<and> event_rows (Some ''evt_1'') (subscriptions idle_server) \<le> 1
   \<and> email_rows (customer_email checkout_session) (subscriptions idle_server) \<le> 1
   \<and> subscriptions (snd (stripe_webhook (Some ''whsec'') (Some ''t=1,v1=ab'') (Inr checkout_event) db_up
          ''2026-01-01 00:00:00'' 5000 idle_server)) =
        [subscriptionData checkout_event ''2026-01-01 00:00:00'' checkout_session]
   \<and> subscriptions (snd (stripe_webhook (Some ''whsec'') (Some ''t=1,v1=ab'') (Inr checkout_event) db_up
          ''2026-01-01 00:00:09'' 14000
          (snd (stripe_webhook (Some ''whsec'') (Some ''t=1,v1=ab'') (Inr checkout_event) db_up
             ''2026-01-01 00:00:00'' 5000 idle_server)))) =
        [subscriptionData checkout_event ''2026-01-01 00:00:00'' checkout_session]"
  using duplicate_deliveries_store_one_row
          [where d = "inbound_callData inbound_ringing" and d' = "inbound_callData inbound_ringing"
             and tbl = "[]" and fails = db_up and fails' = db_up and ev = checkout_event
             and session = checkout_session and s = idle_server and sec = "Some ''whsec''"
             and sg = "Some ''t=1,v1=ab''" and x = "''2026-01-01 00:00:00''" and now = 5000
             and x' = "''2026-01-01 00:00:09''" and now' = 14000]
  by (simp add: saveCallLog_def affectedRows_def inbound_callData_def call_log_row_def no_fault_def
        db_up_def event_rows_def email_rows_def stripe_webhook_def process_checkout_def
        process_call_event_def event_type_def saveSubscriptionToDb_def save_by_email_def
        subscriptionData_def sql_eq_def startTimeForDb_def
        sample_defs js_defs)

section \<open>The acknowledgement of the webhooks\<close>

text \<open>
  What holds of \<open>POST /webhook\<close>: its response does not depend on which statements the
  database rejects; and an event that has \<open>data.object\<close>, with a \<open>type\<close> on the object
  of a call event, is answered 200 with \<open>{received: true}\<close> whatever the database does.
\<close>

lemma stripe_webhook_response_ignores_database:
  "fst (stripe_webhook endpointSecret sig constructEvent fails x now s) =
   fst (stripe_webhook endpointSecret sig constructEvent fails' x now s)"
  by (auto simp: stripe_webhook_def process_checkout_def process_call_event_def Let_def
           split: option.splits sum.splits if_splits)

lemma stripe_webhook_acknowledges_well_formed:
  "truthy endpointSecret \<Longrightarrow> truthy sig \<Longrightarrow> well_formed_event ev \<Longrightarrow>
   fst (stripe_webhook endpointSecret sig (Inr ev) fails x now s) = Some (Response 200 Received)"
  by (auto simp: stripe_webhook_def process_checkout_def process_call_event_def well_formed_event_def
                 Let_def
           split: option.splits sum.splits if_splits)

text \<open>
  C9, on the code. A verified event of the voice provider's shape, \<open>{call: ...}\<close> with
  neither \<open>type\<close> nor \<open>data\<close>, is given the type \<open>call.inbound.completed\<close> by the handler
  of \<open>POST /webhook\<close>, which then reads \<open>event.data.object\<close> and throws: no response is
  sent. A body with call data posted to \<open>POST /webhook/inbound\<close> under the current
  server.js makes the handler throw at \<open>global.callLogs.findIndex\<close>: no response is sent,
  and the state is as it was.
\<close>

theorem parsed_webhook_gets_no_response:
  "event_type voice_event = Some ''call.inbound.completed''
   \<and> stripe_webhook (Some ''whsec'') (Some ''t=1,v1=ab'') (Inr voice_event) db_up
        ''2026-01-01 00:00:00'' 5000 busy_server = (None, busy_server)
   \<and> extract_callEvent ring_body = Some ring_event
   \<and> inbound_webhook_current ring_body busy_server = (None, busy_server)"
  by (simp add: stripe_webhook_def process_checkout_def process_call_event_def event_type_def
        inbound_webhook_current_def extract_callEvent_def sample_defs js_defs)

end
